theory Spec2Isabelle
  imports Complex_Main "HOL-Library.Signed_Division" "HOL-Library.Word"
begin

section \<open>gdalcacaview: the raster windowing and stretch engine\<close>

text \<open>
  A shallow embedding of the raster part of \<^verbatim>\<open>gdalcacaview.c\<close> (the version with
  stretch rules and extents): \<^verbatim>\<open>get_stretch_for_gdal\<close>, \<^verbatim>\<open>gdal_get_best_overview\<close>,
  \<^verbatim>\<open>do_stretch\<close>, \<^verbatim>\<open>prepare_for_reading\<close>, \<^verbatim>\<open>gdal_read_multiband\<close> and
  \<^verbatim>\<open>gdal_read_singleband\<close>.

  Conventions of the embedding.
  \<^item> A C \<^verbatim>\<open>int\<close> is a HOL \<open>int\<close>; overflow is outside the model. Integer division is
    \<open>sdiv\<close>, which truncates towards zero as C does.
  \<^item> A C \<^verbatim>\<open>double\<close> or \<^verbatim>\<open>float\<close> is a HOL \<open>real\<close>: arithmetic is exact, rounding
    is outside the model. A division whose divisor can be zero where the result is
    then converted to \<^verbatim>\<open>int\<close> is written out as an undefined outcome.
  \<^item> What GDAL or libcaca answers is data of the model: a dataset is a record of what
    the GDAL calls used by the program return for it.
  \<^item> A \<^verbatim>\<open>return -1\<close> or \<^verbatim>\<open>return 0\<close> with a message in \<^verbatim>\<open>szGDALMessages\<close> is
    \<open>Inl (Message m)\<close>; an execution whose behaviour C leaves undefined is
    \<open>Inl Undefined\<close> where the model writes it out: a division by a \<^verbatim>\<open>NULL\<close> level's
    width, the conversion of a non-finite double in \<^verbatim>\<open>prepare_for_reading\<close>, a store
    through \<^verbatim>\<open>NULL\<close> and a read outside a colour array in \<^verbatim>\<open>gdal_read_singleband\<close>.
    The int read beyond the histogram and the contents of a fresh allocation are
    parameters. The text of a definition says where the model does not follow the code.
\<close>

subsection \<open>Constants\<close>

abbreviation (input) PIX_PER_CELL :: int where "PIX_PER_CELL \<equiv> 30"
abbreviation (input) IMG_DEPTH :: nat where "IMG_DEPTH \<equiv> 3"

abbreviation (input) VIEWER_COMP_LT :: int where "VIEWER_COMP_LT \<equiv> 0"
abbreviation (input) VIEWER_COMP_GT :: int where "VIEWER_COMP_GT \<equiv> 1"
abbreviation (input) VIEWER_COMP_EQ :: int where "VIEWER_COMP_EQ \<equiv> 2"

abbreviation (input) VIEWER_MODE_COLORTABLE :: int where "VIEWER_MODE_COLORTABLE \<equiv> 1"
abbreviation (input) VIEWER_MODE_GREYSCALE :: int where "VIEWER_MODE_GREYSCALE \<equiv> 2"
abbreviation (input) VIEWER_MODE_RGB :: int where "VIEWER_MODE_RGB \<equiv> 3"
abbreviation (input) VIEWER_MODE_PSEUDOCOLOR :: int where "VIEWER_MODE_PSEUDOCOLOR \<equiv> 4"

abbreviation (input) VIEWER_STRETCHMODE_NONE :: int where "VIEWER_STRETCHMODE_NONE \<equiv> 1"
abbreviation (input) VIEWER_STRETCHMODE_LINEAR :: int where "VIEWER_STRETCHMODE_LINEAR \<equiv> 2"
abbreviation (input) VIEWER_STRETCHMODE_STDDEV :: int where "VIEWER_STRETCHMODE_STDDEV \<equiv> 3"
abbreviation (input) VIEWER_STRETCHMODE_HIST :: int where "VIEWER_STRETCHMODE_HIST \<equiv> 4"

subsection \<open>Data\<close>

datatype error = Message string | Undefined

text \<open>\<^verbatim>\<open>struct stretch\<close>. The fields \<^verbatim>\<open>comp\<close> and \<^verbatim>\<open>value\<close> are renamed: the first is
  HOL's function composition, the second a keyword.\<close>

record stretch =
  comp_rule :: int
  value_rule :: int
  ctband :: int
  mode :: int
  stretchmode :: int
  stretchparam :: "real \<times> real"
  bands :: "int \<times> int \<times> int"

text \<open>\<^verbatim>\<open>struct extent\<close>.\<close>

record extent =
  dCentreX :: real
  dCentreY :: real
  dMetersPerCell :: real

text \<open>\<^verbatim>\<open>struct readInfo\<close>.\<close>

record readInfo =
  nXOff :: int
  nYOff :: int
  nXSize :: int
  nYSize :: int
  nDataOffset :: int
  nBufXSize :: int
  nBufYSize :: int

text \<open>The part of \<^verbatim>\<open>struct image\<close> that the readers fill in; a pixel is a C \<^verbatim>\<open>char\<close>.\<close>

record image =
  pixels :: "8 word list"
  w :: int
  h :: int

subsection \<open>What GDAL answers\<close>

datatype GDALRATFieldUsage =
  GFU_Generic | GFU_PixelCount | GFU_Name | GFU_Red | GFU_Green | GFU_Blue | GFU_Alpha

text \<open>A column of a raster attribute table: its usage (\<^verbatim>\<open>GDALRATGetUsageOfCol\<close>) and its
  value in each row, as \<^verbatim>\<open>GDALRATValuesIOAsInteger\<close> reads it.\<close>

record rat_column =
  usage :: GDALRATFieldUsage
  as_integer :: "nat \<Rightarrow> int"

record attribute_table =
  row_count :: nat
  columns :: "rat_column list"

text \<open>A band at one resolution (the band itself, or one of its overviews): its size
  (\<^verbatim>\<open>GDALGetRasterBandXSize\<close>, \<^verbatim>\<open>GDALGetRasterBandYSize\<close>) and what a \<^verbatim>\<open>GDALRasterIO\<close>
  read of a window stores at each index of the destination buffer (\<open>None\<close>: that index
  is not written). GDAL has no raster of width or height 0: the quotients by \<open>x_size\<close>
  below are those of C for the sizes that GDAL answers.\<close>

record level =
  x_size :: int
  y_size :: int
  raster_io :: "readInfo \<Rightarrow> nat \<Rightarrow> real option"

text \<open>A band: its full resolution, its overviews, the metadata items the program asks
  for (\<open>None\<close> when \<^verbatim>\<open>GDALGetMetadataItem\<close> returns \<^verbatim>\<open>NULL\<close>; the statistics already
  parsed by \<^verbatim>\<open>atof\<close>), and its default attribute table.\<close>

record band =
  full :: level
  overviews :: "level list"
  LAYER_TYPE :: "string option"
  STATISTICS_MINIMUM :: "real option"
  STATISTICS_MAXIMUM :: "real option"
  STATISTICS_MEAN :: "real option"
  STATISTICS_STDDEV :: "real option"
  default_rat :: "attribute_table option"

text \<open>The six coefficients of a geotransform.\<close>

type_synonym geotransform = "real \<times> real \<times> real \<times> real \<times> real \<times> real"

record dataset =
  raster_x_size :: int
  raster_y_size :: int
  geo_transform :: "geotransform option"
  raster_bands :: "band list"

definition GDALGetRasterCount :: "dataset \<Rightarrow> int" where
  "GDALGetRasterCount ds = int (length (raster_bands ds))"

text \<open>Bands are numbered from 1; any other number gives \<^verbatim>\<open>NULL\<close>.\<close>

definition GDALGetRasterBand :: "dataset \<Rightarrow> int \<Rightarrow> band option" where
  "GDALGetRasterBand ds n =
     (if 1 \<le> n \<and> n \<le> GDALGetRasterCount ds then Some (raster_bands ds ! nat (n - 1))
      else None)"

text \<open>The GDAL calls on a band handle answer \<^verbatim>\<open>NULL\<close> (or 0) on a \<^verbatim>\<open>NULL\<close> handle.\<close>

definition layer_type_of :: "band option \<Rightarrow> string option" where
  "layer_type_of bandh = (case bandh of None \<Rightarrow> None | Some b \<Rightarrow> LAYER_TYPE b)"

definition GDALGetDefaultRAT :: "band option \<Rightarrow> attribute_table option" where
  "GDALGetDefaultRAT bandh = (case bandh of None \<Rightarrow> None | Some b \<Rightarrow> default_rat b)"

section \<open>The stretch rule matcher\<close>

text \<open>The loop over the columns of the attribute table in \<^verbatim>\<open>get_stretch_for_gdal\<close>:
  the state is \<^verbatim>\<open>hasRed, hasGreen, hasBlue, hasAlpha\<close>.\<close>

fun scan_usages :: "rat_column list \<Rightarrow> bool \<times> bool \<times> bool \<times> bool \<Rightarrow> bool \<times> bool \<times> bool \<times> bool" where
  "scan_usages [] flags = flags"
| "scan_usages (c # cs) (hasRed, hasGreen, hasBlue, hasAlpha) =
     scan_usages cs
       (if usage c = GFU_Red then True else hasRed,
        if usage c = GFU_Green then True else hasGreen,
        if usage c = GFU_Blue then True else hasBlue,
        if usage c = GFU_Alpha then True else hasAlpha)"

text \<open>The value of \<^verbatim>\<open>match\<close> after the comparison of the band count; \<open>None\<close> is the
  branch "invalid value for comparison".\<close>

definition count_match :: "stretch \<Rightarrow> int \<Rightarrow> bool option" where
  "count_match pStretch rasterCount =
     (if comp_rule pStretch = VIEWER_COMP_LT then Some (rasterCount < value_rule pStretch)
      else if comp_rule pStretch = VIEWER_COMP_GT then Some (rasterCount > value_rule pStretch)
      else if comp_rule pStretch = VIEWER_COMP_EQ then Some (rasterCount = value_rule pStretch)
      else None)"

text \<open>The value of \<^verbatim>\<open>match\<close> after the block on the colour table band. Where the band
  is not thematic, \<^verbatim>\<open>match\<close> keeps its value.\<close>

definition ctband_match :: "stretch \<Rightarrow> dataset \<Rightarrow> bool \<Rightarrow> bool" where
  "ctband_match pStretch ds match =
     (if match \<and> ctband pStretch \<noteq> -1 \<and> ctband pStretch \<le> GDALGetRasterCount ds then
        (let bandh = GDALGetRasterBand ds (ctband pStretch) in
         if layer_type_of bandh = Some ''thematic'' then
           (case scan_usages
                   (case GDALGetDefaultRAT bandh of None \<Rightarrow> [] | Some rath \<Rightarrow> columns rath)
                   (False, False, False, False) of
              (hasRed, hasGreen, hasBlue, hasAlpha) \<Rightarrow> hasRed \<and> hasGreen \<and> hasBlue \<and> hasAlpha)
         else match)
      else match)"

fun get_stretch_for_gdal :: "stretch list \<Rightarrow> dataset \<Rightarrow> stretch option" where
  "get_stretch_for_gdal [] ds = None"
| "get_stretch_for_gdal (pStretch # rest) ds =
     (case count_match pStretch (GDALGetRasterCount ds) of
        None \<Rightarrow> None
      | Some match \<Rightarrow>
          if ctband_match pStretch ds match then Some pStretch
          else get_stretch_for_gdal rest ds)"

section \<open>The overview selector\<close>

text \<open>The overviews that \<^verbatim>\<open>gdal_get_best_overview\<close> walks are those of band 1
  (\<^verbatim>\<open>GDALGetOverviewCount\<close> answers 0 on a \<^verbatim>\<open>NULL\<close> band).\<close>

definition band1_overviews :: "dataset \<Rightarrow> level list" where
  "band1_overviews ds = (case GDALGetRasterBand ds 1 of None \<Rightarrow> [] | Some b \<Rightarrow> overviews b)"

text \<open>\<^verbatim>\<open>dPixelsPerCell\<close> of an overview: the pixel size of the dataset is
  \<^verbatim>\<open>adfTransform[1]\<close>, the factor of the overview the integer quotient of the widths.\<close>

definition dPixelsPerCell :: "dataset \<Rightarrow> geotransform \<Rightarrow> extent \<Rightarrow> level \<Rightarrow> real" where
  "dPixelsPerCell ds adfTransform ext ovh =
     (case adfTransform of (g0, g1, g2, g3, g4, g5) \<Rightarrow>
        let nFactor = raster_x_size ds sdiv x_size ovh
        in dMetersPerCell ext / (g1 * real_of_int nFactor))"

text \<open>\<^verbatim>\<open>dBestPixelsPerCell\<close> before the loop: the full resolution.\<close>

definition full_res_pixels_per_cell :: "geotransform \<Rightarrow> extent \<Rightarrow> real" where
  "full_res_pixels_per_cell adfTransform ext =
     (case adfTransform of (g0, g1, g2, g3, g4, g5) \<Rightarrow> dMetersPerCell ext / g1)"

text \<open>The loop over the overviews: \<open>count\<close> is the index of the head of the list, the
  state is \<^verbatim>\<open>(dBestPixelsPerCell, nBestIndex)\<close>.\<close>

fun overview_loop :: "(level \<Rightarrow> real) \<Rightarrow> level list \<Rightarrow> nat \<Rightarrow> real \<times> int \<Rightarrow> real \<times> int" where
  "overview_loop ppc [] count best = best"
| "overview_loop ppc (ovh # rest) count (dBestPixelsPerCell, nBestIndex) =
     (if ppc ovh > real_of_int PIX_PER_CELL \<and>
         ppc ovh - real_of_int PIX_PER_CELL < dBestPixelsPerCell - real_of_int PIX_PER_CELL
      then overview_loop ppc rest (count + 1) (ppc ovh, int count + 1)
      else overview_loop ppc rest (count + 1) (dBestPixelsPerCell, nBestIndex))"

definition gdal_get_best_overview :: "dataset \<Rightarrow> extent \<Rightarrow> int" where
  "gdal_get_best_overview ds ext =
     (if length (band1_overviews ds) = 0 then 0
      else case geo_transform ds of
             None \<Rightarrow> 0
           | Some adfTransform \<Rightarrow>
               snd (overview_loop (dPixelsPerCell ds adfTransform ext) (band1_overviews ds) 0
                      (full_res_pixels_per_cell adfTransform ext, 0)))"

section \<open>The stretch\<close>

text \<open>The end of each branch of \<^verbatim>\<open>do_stretch\<close>: \<^verbatim>\<open>dVal\<close> is cut to the range 0 to 255.\<close>

definition store_dVal :: "real \<Rightarrow> real" where
  "store_dVal dVal = (if dVal < 0 then 0 else if dVal > 255 then 255 else dVal)"

text \<open>One sample under the standard deviation stretch. The quotient is the one of the
  real numbers: where \<open>stddev * 2 * param0\<close> is zero the C quotient is an infinity or not
  a number and the code stores 255, 0 or not a number, which this function does not
  give. A sample that is 0 or at most the minimum, or at least the maximum, does not
  reach the quotient.\<close>

definition stddev_sample :: "real \<Rightarrow> real \<Rightarrow> real \<Rightarrow> real \<Rightarrow> real \<Rightarrow> real \<Rightarrow> real" where
  "stddev_sample dMin dMax mean stddev param0 v =
     (if v \<le> dMin \<or> v = 0 then 0
      else if v \<ge> dMax then 255
      else store_dVal (((v - mean + stddev * param0) * 255) / (stddev * 2 * param0)))"

text \<open>One sample under the linear stretch between two bounds; the histogram stretch
  uses the same lines with its own bounds. \<^verbatim>\<open>dStep\<close> is the range divided by 255, and
  the sample's distance to the lower bound is multiplied by it.\<close>

definition linear_sample :: "real \<Rightarrow> real \<Rightarrow> real \<Rightarrow> real" where
  "linear_sample dMin dMax v =
     (let dStep = (dMax - dMin) / 255
      in if v \<le> dMin then 0
         else if v \<ge> dMax then 255
         else store_dVal ((v - dMin) * dStep))"

text \<open>\<^verbatim>\<open>CPLMalloc\<close> of \<open>n\<close> ints holding \<open>contents\<close>: \<^verbatim>\<open>NULL\<close> for a size of zero.\<close>

definition CPLMalloc_ints :: "nat \<Rightarrow> int list \<Rightarrow> int list option" where
  "CPLMalloc_ints n contents = (if n = 0 then None else Some contents)"

definition GDALRATValuesIOAsInteger :: "rat_column \<Rightarrow> nat \<Rightarrow> int list" where
  "GDALRATValuesIOAsInteger c n = map (as_integer c) [0..<n]"

text \<open>The loop that looks for the histogram: each column of usage \<^verbatim>\<open>GFU_PixelCount\<close>
  is read into a new \<^verbatim>\<open>pHisto\<close>.\<close>

fun read_histogram :: "rat_column list \<Rightarrow> nat \<Rightarrow> int list option \<Rightarrow> int list option" where
  "read_histogram [] nbins pHisto = pHisto"
| "read_histogram (c # cs) nbins pHisto =
     read_histogram cs nbins
       (if usage c = GFU_PixelCount
        then CPLMalloc_ints nbins (GDALRATValuesIOAsInteger c nbins) else pHisto)"

text \<open>The scan from the bottom: the index at which \<^verbatim>\<open>dSumVals\<close> first exceeds
  \<^verbatim>\<open>dBandLower\<close>, \<open>None\<close> when the loop ends without \<^verbatim>\<open>break\<close>.\<close>

fun lower_scan :: "int list \<Rightarrow> int \<Rightarrow> real \<Rightarrow> real \<Rightarrow> int option" where
  "lower_scan [] n dSumVals dBandLower = None"
| "lower_scan (c # cs) n dSumVals dBandLower =
     (if dSumVals + real_of_int c > dBandLower then Some n
      else lower_scan cs (n + 1) (dSumVals + real_of_int c) dBandLower)"

text \<open>The scan from the top runs \<open>n\<close> from \<^verbatim>\<open>nbins\<close> down to 0, over the values it
  reads in that order.\<close>

fun upper_scan :: "int list \<Rightarrow> int \<Rightarrow> real \<Rightarrow> real \<Rightarrow> int option" where
  "upper_scan [] n dSumVals dBandUpper = None"
| "upper_scan (c # cs) n dSumVals dBandUpper =
     (if dSumVals + real_of_int c > dBandUpper then Some n
      else upper_scan cs (n - 1) (dSumVals + real_of_int c) dBandUpper)"

text \<open>\<^verbatim>\<open>(dStretchMin, dStretchMax)\<close> of the histogram stretch. The scan from the top
  starts at \<^verbatim>\<open>pHisto[nbins]\<close>, one int beyond the allocation: \<open>beyond\<close> is the int found
  there. Both quotients by \<^verbatim>\<open>nbins\<close> are integer divisions.\<close>

definition histogram_bounds :: "int \<Rightarrow> int list \<Rightarrow> real \<Rightarrow> real \<Rightarrow> real \<times> real \<Rightarrow> real \<times> real" where
  "histogram_bounds beyond pHisto dMin dMax param =
     (let nbins = int (length pHisto);
          dSumHisto = real_of_int (sum_list pHisto);
          dBandLower = dSumHisto * fst param;
          dBandUpper = dSumHisto * snd param;
          dStretchMin = (case lower_scan pHisto 0 0 dBandLower of
                           None \<Rightarrow> dMin
                         | Some n \<Rightarrow> dMin + (dMax - dMin) * real_of_int (n sdiv nbins));
          dStretchMax = (case upper_scan (beyond # rev pHisto) nbins 0 dBandUpper of
                           None \<Rightarrow> dMax
                         | Some n \<Rightarrow> dMax + real_of_int ((nbins - n - 1) sdiv nbins))
      in (dStretchMin, dStretchMax))"

text \<open>The bounds as the specification words them: the position of the first bin whose
  cumulative count exceeds the clip, interpolated over the range from minimum to
  maximum.\<close>

definition spec_stretch_min :: "int list \<Rightarrow> real \<Rightarrow> real \<Rightarrow> real \<Rightarrow> real" where
  "spec_stretch_min pHisto dMin dMax param0 =
     (case lower_scan pHisto 0 0 (real_of_int (sum_list pHisto) * param0) of
        None \<Rightarrow> dMin
      | Some n \<Rightarrow> dMin + (dMax - dMin) * (real_of_int n / real (length pHisto)))"

text \<open>\<^verbatim>\<open>do_stretch\<close>: the buffer after the stretch, or the message. The size is the
  length of the buffer.\<close>

definition metadata_of :: "band option \<Rightarrow> (band \<Rightarrow> real option) \<Rightarrow> real option" where
  "metadata_of bandh item = (case bandh of None \<Rightarrow> None | Some b \<Rightarrow> item b)"

definition do_stretch :: "int \<Rightarrow> real list \<Rightarrow> band option \<Rightarrow> stretch \<Rightarrow> error + real list" where
  "do_stretch beyond pBuffer bandh st =
     (case (metadata_of bandh STATISTICS_MINIMUM, metadata_of bandh STATISTICS_MAXIMUM) of
        (Some dMin, Some dMax) \<Rightarrow>
          if stretchmode st = VIEWER_STRETCHMODE_STDDEV then
            (case (metadata_of bandh STATISTICS_STDDEV, metadata_of bandh STATISTICS_MEAN) of
               (Some stddev, Some mean) \<Rightarrow>
                 Inr (map (stddev_sample dMin dMax mean stddev (fst (stretchparam st))) pBuffer)
             | _ \<Rightarrow> Inl (Message ''Statistics not available. Run gdalcalcstats first''))
          else if stretchmode st = VIEWER_STRETCHMODE_HIST then
            (case GDALGetDefaultRAT bandh of
               None \<Rightarrow> Inl (Message ''Histogram not available. Run gdalcalcstats first'')
             | Some rath \<Rightarrow>
                 (case read_histogram (columns rath) (row_count rath) None of
                    None \<Rightarrow> Inl (Message ''Histogram not available. Run gdalcalcstats first'')
                  | Some pHisto \<Rightarrow>
                      (case histogram_bounds beyond pHisto dMin dMax (stretchparam st) of
                         (dStretchMin, dStretchMax) \<Rightarrow>
                           Inr (map (linear_sample dStretchMin dStretchMax) pBuffer))))
          else if stretchmode st = VIEWER_STRETCHMODE_LINEAR then
            Inr (map (linear_sample dMin dMax) pBuffer)
          else if stretchmode st \<noteq> VIEWER_STRETCHMODE_NONE then
            Inl (Message ''stretch not currently supported'')
          else Inr pBuffer
      | _ \<Rightarrow> Inl (Message ''Statistics not available. Run gdalcalcstats first''))"

text \<open>The linear stretch as the specification words it.\<close>

definition spec_linear :: "real \<Rightarrow> real \<Rightarrow> real \<Rightarrow> real" where
  "spec_linear dMin dMax v = max 0 (min 255 ((v - dMin) * 255 / (dMax - dMin)))"

section \<open>The window mapper\<close>

text \<open>C's \<^verbatim>\<open>round\<close> rounds halves away from zero; the conversion of a double to
  \<^verbatim>\<open>int\<close> drops the fraction.\<close>

definition c_round :: "real \<Rightarrow> int" where
  "c_round x = (if x \<ge> 0 then \<lfloor>x + 1 / 2\<rfloor> else - \<lfloor>- x + 1 / 2\<rfloor>)"

definition c_trunc :: "real \<Rightarrow> int" where
  "c_trunc x = (if x \<ge> 0 then \<lfloor>x\<rfloor> else - \<lfloor>- x\<rfloor>)"

text \<open>The two GDAL calls on geotransforms, in exact arithmetic: the inverse of the
  affine map, refused when the determinant is zero, and the application of a
  transform to a point.\<close>

definition GDALInvGeoTransform :: "geotransform \<Rightarrow> geotransform option" where
  "GDALInvGeoTransform gt =
     (case gt of (g0, g1, g2, g3, g4, g5) \<Rightarrow>
        let det = g1 * g5 - g2 * g4
        in if det = 0 then None
           else Some ((g2 * g3 - g0 * g5) / det, g5 / det, - g2 / det,
                      (- g1 * g3 + g0 * g4) / det, - g4 / det, g1 / det))"

definition GDALApplyGeoTransform :: "geotransform \<Rightarrow> real \<Rightarrow> real \<Rightarrow> real \<times> real" where
  "GDALApplyGeoTransform gt dfPixel dfLine =
     (case gt of (g0, g1, g2, g3, g4, g5) \<Rightarrow>
        (g0 + dfPixel * g1 + dfLine * g2, g3 + dfPixel * g4 + dfLine * g5))"

text \<open>\<^verbatim>\<open>prepare_for_reading\<close> after the two applications of the inverted transform:
  \<open>(x1, y1)\<close> and \<open>(x2, y2)\<close> are the corners of the view in pixels of the level, of
  size \<open>width\<close> by \<open>height\<close>. \<^verbatim>\<open>abs\<close> is the one of \<^verbatim>\<open>stdlib.h\<close>, on \<^verbatim>\<open>int\<close>. The
  extras are divided by \<^verbatim>\<open>origWidthIn\<close> and \<^verbatim>\<open>origHeightIn\<close> as doubles and converted
  back to \<^verbatim>\<open>int\<close>: where one of the two is zero the quotient is not finite and the
  conversion undefined.\<close>

definition clip_window ::
  "int \<Rightarrow> int \<Rightarrow> int \<Rightarrow> int \<Rightarrow> real \<times> real \<Rightarrow> real \<times> real \<Rightarrow> error + readInfo" where
  "clip_window dataWidth dataHeight width height c1 c2 =
     (case (c1, c2) of ((x1, y1), (x2, y2)) \<Rightarrow>
        let origWidthIn = c_round (x2 - x1);
            origHeightIn = c_round (y2 - y1);
            leftExtra = (if x1 < 0 then \<bar>c_trunc x1\<bar> else 0);
            x1 = (if x1 < 0 then 0 else x1);
            rightExtra = (if x2 \<ge> real_of_int width then c_trunc (x2 - real_of_int width - 1) else 0);
            x2 = (if x2 \<ge> real_of_int width then real_of_int width - 1 else x2);
            topExtra = (if y1 < 0 then \<bar>c_trunc y1\<bar> else 0);
            y1 = (if y1 < 0 then 0 else y1);
            bottomExtra = (if y2 \<ge> real_of_int height then c_trunc (y2 - real_of_int height - 1) else 0);
            y2 = (if y2 \<ge> real_of_int height then real_of_int height - 1 else y2);
            widthIn = c_round (x2 - x1);
            heightIn = c_round (y2 - y1);
            tlx = c_trunc x1;
            tly = c_trunc y1
        in if origWidthIn = 0 \<or> origHeightIn = 0 then Inl Undefined
           else
             let leftExtra = c_trunc ((real_of_int leftExtra / real_of_int origWidthIn) * real_of_int dataWidth);
                 rightExtra = c_trunc ((real_of_int rightExtra / real_of_int origWidthIn) * real_of_int dataWidth);
                 topExtra = c_trunc ((real_of_int topExtra / real_of_int origHeightIn) * real_of_int dataHeight);
                 bottomExtra = c_trunc ((real_of_int bottomExtra / real_of_int origHeightIn) * real_of_int dataHeight)
             in Inr \<lparr>nXOff = tlx, nYOff = tly, nXSize = widthIn, nYSize = heightIn,
                     nDataOffset = leftExtra + (topExtra * dataWidth),
                     nBufXSize = dataWidth - leftExtra - rightExtra,
                     nBufYSize = dataHeight - topExtra - bottomExtra\<rparr>)"

text \<open>The corners of the view in pixels of the level, for an inverted transform.
  \<open>ww\<close> and \<open>wh\<close> are the width and height of the canvas (global variables of the
  program).\<close>

definition view_corners :: "int \<Rightarrow> int \<Rightarrow> extent \<Rightarrow> geotransform \<Rightarrow> (real \<times> real) \<times> (real \<times> real)" where
  "view_corners ww wh ext adfInvertTransform =
     (let dTLX = dCentreX ext - ((real_of_int ww / 2) * dMetersPerCell ext);
          dBRX = dCentreX ext + ((real_of_int ww / 2) * dMetersPerCell ext);
          dTLY = dCentreY ext + ((real_of_int wh / 2) * dMetersPerCell ext);
          dBRY = dCentreY ext - ((real_of_int wh / 2) * dMetersPerCell ext)
      in (GDALApplyGeoTransform adfInvertTransform dTLX dTLY,
          GDALApplyGeoTransform adfInvertTransform dBRX dBRY))"

text \<open>The transform of the level: the pixel sizes are multiplied by the factor of the
  overview.\<close>

definition level_transform :: "dataset \<Rightarrow> level \<Rightarrow> geotransform \<Rightarrow> geotransform" where
  "level_transform ds ovh adfTransform =
     (case adfTransform of (g0, g1, g2, g3, g4, g5) \<Rightarrow>
        let nFactor = raster_x_size ds sdiv x_size ovh
        in (g0, g1 * real_of_int nFactor, g2, g3, g4, g5 * real_of_int nFactor))"

definition prepare_for_reading ::
  "int \<Rightarrow> int \<Rightarrow> int \<Rightarrow> int \<Rightarrow> dataset \<Rightarrow> level \<Rightarrow> extent \<Rightarrow> error + readInfo" where
  "prepare_for_reading ww wh dataWidth dataHeight ds ovh ext =
     (case geo_transform ds of
        None \<Rightarrow> Inl (Message ''Image has no geotransform'')
      | Some adfTransform \<Rightarrow>
          (case GDALInvGeoTransform (level_transform ds ovh adfTransform) of
             None \<Rightarrow> Inl (Message ''Unable to invert transform'')
           | Some adfInvertTransform \<Rightarrow>
               (case view_corners ww wh ext adfInvertTransform of
                  (c1, c2) \<Rightarrow> clip_window dataWidth dataHeight (x_size ovh) (y_size ovh) c1 c2)))"

section \<open>The readers\<close>

text \<open>What the readers take from outside the dataset: the size of the canvas, the int
  that lies beyond the histogram (see \<open>histogram_bounds\<close>), the ints that a fresh
  allocation of \<^verbatim>\<open>CPLMalloc\<close> holds before anything is stored in it, and whether
  \<^verbatim>\<open>caca_create_dither\<close> returns a dither for a width and a height.\<close>

record environment =
  ww :: int
  wh :: int
  beyond_histogram :: int
  fresh_memory :: "nat \<Rightarrow> int"
  caca_create_dither :: "int \<Rightarrow> int \<Rightarrow> bool"

definition GDALGetOverview :: "band \<Rightarrow> int \<Rightarrow> level option" where
  "GDALGetOverview b i =
     (if 0 \<le> i \<and> i < int (length (overviews b)) then Some (overviews b ! nat i) else None)"

text \<open>\<^verbatim>\<open>ovh\<close>: the band itself, or its overview.\<close>

definition level_handle :: "band option \<Rightarrow> int \<Rightarrow> level option" where
  "level_handle bandh overviewIndex =
     (case bandh of
        None \<Rightarrow> None
      | Some b \<Rightarrow> if overviewIndex = 0 then Some (full b) else GDALGetOverview b (overviewIndex - 1))"

text \<open>\<^verbatim>\<open>GDALRasterIO\<close> into the buffer: an index that the read does not store keeps its
  value; on a \<^verbatim>\<open>NULL\<close> handle nothing is stored. The value returned is not looked at
  by the program. Only the stores inside the buffer are part of the model: where the
  window to fill is larger than the buffer (see \<open>prepare_for_reading_full_extent\<close>
  below) the C call stores beyond the allocation, and the readers of this model go on.\<close>

definition GDALRasterIO :: "level option \<Rightarrow> readInfo \<Rightarrow> real list \<Rightarrow> real list" where
  "GDALRasterIO ovh info pBuffer =
     (case ovh of
        None \<Rightarrow> pBuffer
      | Some l \<Rightarrow> map (\<lambda>i. case raster_io l info i of None \<Rightarrow> pBuffer ! i | Some v \<Rightarrow> v)
                   [0..<length pBuffer])"

text \<open>The store of a float, or of an int, into a \<^verbatim>\<open>char\<close> of the pixels.\<close>

definition char_of_int :: "int \<Rightarrow> 8 word" where
  "char_of_int i = word_of_int i"

definition char_of_float :: "real \<Rightarrow> 8 word" where
  "char_of_float v = word_of_int (c_trunc v)"

text \<open>The prologue that both readers share: the size of the image from the canvas,
  the window, and the two buffers set to zero. On a \<^verbatim>\<open>NULL\<close> level
  \<^verbatim>\<open>GDALGetRasterBandXSize\<close> answers 0 and \<^verbatim>\<open>prepare_for_reading\<close> divides by it.\<close>

definition image_width :: "environment \<Rightarrow> int" where
  "image_width env = PIX_PER_CELL * ww env"

definition image_height :: "environment \<Rightarrow> int" where
  "image_height env = PIX_PER_CELL * wh env"

definition prepare_image ::
  "environment \<Rightarrow> dataset \<Rightarrow> level option \<Rightarrow> extent \<Rightarrow> error + readInfo" where
  "prepare_image env ds ovh ext =
     (case ovh of
        None \<Rightarrow> Inl Undefined
      | Some l \<Rightarrow> prepare_for_reading (ww env) (wh env) (image_width env) (image_height env) ds l ext)"

definition CPLCalloc :: "int \<Rightarrow> 'a::zero list" where
  "CPLCalloc n = replicate (nat n) 0"

definition band_at :: "stretch \<Rightarrow> nat \<Rightarrow> int" where
  "band_at st count =
     (case bands st of (b0, b1, b2) \<Rightarrow> if count = 0 then b0 else if count = 1 then b1 else b2)"

text \<open>The copy of a stretched band into the pixels, at every third char from
  \<open>count\<close>.\<close>

definition copy_band :: "nat \<Rightarrow> real list \<Rightarrow> 8 word list \<Rightarrow> 8 word list" where
  "copy_band count pBuffer px =
     fold (\<lambda>incount px. px[count + IMG_DEPTH * incount := char_of_float (pBuffer ! incount)])
       [0..<length pBuffer] px"

text \<open>The loop over the three bands of \<^verbatim>\<open>gdal_read_multiband\<close>: the state is the
  float buffer, which is not cleared between two bands, and the pixels.\<close>

fun read_bands ::
  "environment \<Rightarrow> dataset \<Rightarrow> int \<Rightarrow> stretch \<Rightarrow> readInfo \<Rightarrow> nat list \<Rightarrow>
   real list \<times> 8 word list \<Rightarrow> error + real list \<times> 8 word list" where
  "read_bands env ds overviewIndex st info [] state = Inr state"
| "read_bands env ds overviewIndex st info (count # counts) (pBuffer, px) =
     (let bandh = GDALGetRasterBand ds (band_at st count);
          ovh = level_handle bandh overviewIndex
      in case do_stretch (beyond_histogram env) (GDALRasterIO ovh info pBuffer) bandh st of
           Inl e \<Rightarrow> Inl e
         | Inr stretched \<Rightarrow>
             read_bands env ds overviewIndex st info counts
               (stretched, copy_band count stretched px))"

definition gdal_read_multiband ::
  "environment \<Rightarrow> dataset \<Rightarrow> int \<Rightarrow> stretch \<Rightarrow> extent \<Rightarrow> error + image" where
  "gdal_read_multiband env ds overviewIndex st ext =
     (let bandh = GDALGetRasterBand ds (band_at st 0);
          ovh = level_handle bandh overviewIndex
      in case prepare_image env ds ovh ext of
           Inl e \<Rightarrow> Inl e
         | Inr info \<Rightarrow>
             (case read_bands env ds overviewIndex st info [0, 1, 2]
                     (CPLCalloc (image_width env * image_height env),
                      CPLCalloc (image_width env * image_height env * int IMG_DEPTH)) of
                Inl e \<Rightarrow> Inl e
              | Inr (pBuffer, px) \<Rightarrow>
                  if \<not> caca_create_dither env (image_width env) (image_height env)
                  then Inl (Message ''Unable to create dither'')
                  else Inr \<lparr>pixels = px, w = image_width env, h = image_height env\<rparr>))"

text \<open>The loop over the columns of the attribute table in \<^verbatim>\<open>gdal_read_singleband\<close>:
  the state is \<^verbatim>\<open>(pRed, pGreen, pBlue)\<close>. For a column of usage \<^verbatim>\<open>GFU_Blue\<close>,
  \<^verbatim>\<open>pBlue\<close> is allocated and the column is read into \<^verbatim>\<open>pGreen\<close>; the read stores
  through \<^verbatim>\<open>NULL\<close> when there are rows and \<^verbatim>\<open>pGreen\<close> is not allocated yet.\<close>

fun read_colours ::
  "(nat \<Rightarrow> int) \<Rightarrow> rat_column list \<Rightarrow> nat \<Rightarrow>
   int list option \<times> int list option \<times> int list option \<Rightarrow>
   error + int list option \<times> int list option \<times> int list option" where
  "read_colours fresh [] incount state = Inr state"
| "read_colours fresh (c # cs) incount (pRed, pGreen, pBlue) =
     (if usage c = GFU_Red then
        read_colours fresh cs incount
          (CPLMalloc_ints incount (GDALRATValuesIOAsInteger c incount), pGreen, pBlue)
      else if usage c = GFU_Green then
        read_colours fresh cs incount
          (pRed, CPLMalloc_ints incount (GDALRATValuesIOAsInteger c incount), pBlue)
      else if usage c = GFU_Blue then
        (if incount \<noteq> 0 \<and> pGreen = None then Inl Undefined
         else read_colours fresh cs incount
                (pRed,
                 (case pGreen of None \<Rightarrow> None | Some g \<Rightarrow> Some (GDALRATValuesIOAsInteger c incount)),
                 CPLMalloc_ints incount (map fresh [0..<incount])))
      else read_colours fresh cs incount (pRed, pGreen, pBlue))"

text \<open>The entry of a colour array at the index that a sample converts to; the array
  has as many entries as the table has rows, and an index outside it is undefined.\<close>

definition colour_at :: "int list \<Rightarrow> real \<Rightarrow> error + 8 word" where
  "colour_at p v =
     (if 0 \<le> c_trunc v \<and> c_trunc v < int (length p) then Inr (char_of_int (p ! nat (c_trunc v)))
      else Inl Undefined)"

text \<open>The three chars of one pixel, and the loop over the buffer.\<close>

definition lookup_pixel :: "int list \<Rightarrow> int list \<Rightarrow> int list \<Rightarrow> real \<Rightarrow> error + 8 word list" where
  "lookup_pixel pRed pGreen pBlue v =
     (case (colour_at pRed v, colour_at pGreen v, colour_at pBlue v) of
        (Inr r, Inr g, Inr b) \<Rightarrow> Inr [r, g, b]
      | _ \<Rightarrow> Inl Undefined)"

fun lookup_pixels :: "int list \<Rightarrow> int list \<Rightarrow> int list \<Rightarrow> real list \<Rightarrow> error + 8 word list" where
  "lookup_pixels pRed pGreen pBlue [] = Inr []"
| "lookup_pixels pRed pGreen pBlue (v # vs) =
     (case lookup_pixel pRed pGreen pBlue v of
        Inl e \<Rightarrow> Inl e
      | Inr rgb \<Rightarrow>
          (case lookup_pixels pRed pGreen pBlue vs of
             Inl e \<Rightarrow> Inl e
           | Inr rest \<Rightarrow> Inr (rgb @ rest)))"

text \<open>The colour table branch of \<^verbatim>\<open>gdal_read_singleband\<close>, from the stretched buffer
  to the pixels.\<close>

definition colortable_pixels ::
  "environment \<Rightarrow> band option \<Rightarrow> real list \<Rightarrow> error + 8 word list" where
  "colortable_pixels env bandh pBuffer =
     (case GDALGetDefaultRAT bandh of
        None \<Rightarrow> Inl (Message ''Unable to Raster Attribute Table'')
      | Some rath \<Rightarrow>
          (case read_colours (fresh_memory env) (columns rath) (row_count rath) (None, None, None) of
             Inl e \<Rightarrow> Inl e
           | Inr (Some pRed, Some pGreen, Some pBlue) \<Rightarrow> lookup_pixels pRed pGreen pBlue pBuffer
           | Inr _ \<Rightarrow> Inl (Message ''Unable to find Red, Green and Blue columns'')))"

definition greyscale_pixels :: "real list \<Rightarrow> 8 word list" where
  "greyscale_pixels pBuffer =
     concat (map (\<lambda>v. [char_of_float v, char_of_float v, char_of_float v]) pBuffer)"

definition gdal_read_singleband ::
  "environment \<Rightarrow> dataset \<Rightarrow> int \<Rightarrow> stretch \<Rightarrow> extent \<Rightarrow> error + image" where
  "gdal_read_singleband env ds overviewIndex st ext =
     (let bandh = GDALGetRasterBand ds (band_at st 0);
          ovh = level_handle bandh overviewIndex
      in case prepare_image env ds ovh ext of
           Inl e \<Rightarrow> Inl e
         | Inr info \<Rightarrow>
             (case do_stretch (beyond_histogram env)
                     (GDALRasterIO ovh info (CPLCalloc (image_width env * image_height env)))
                     bandh st of
                Inl e \<Rightarrow> Inl e
              | Inr pBuffer \<Rightarrow>
                  (case (if mode st = VIEWER_MODE_COLORTABLE then colortable_pixels env bandh pBuffer
                         else if mode st = VIEWER_MODE_GREYSCALE then Inr (greyscale_pixels pBuffer)
                         else Inl (Message ''Unsupported stretch'')) of
                     Inl e \<Rightarrow> Inl e
                   | Inr px \<Rightarrow>
                       if \<not> caca_create_dither env (image_width env) (image_height env)
                       then Inl (Message ''Unable to create dither'')
                       else Inr \<lparr>pixels = px, w = image_width env, h = image_height env\<rparr>)))"

text \<open>\<^verbatim>\<open>gdal_load_image\<close>: the overview is chosen, then the reader of the mode runs.\<close>

definition gdal_load_image :: "environment \<Rightarrow> dataset \<Rightarrow> stretch \<Rightarrow> extent \<Rightarrow> error + image" where
  "gdal_load_image env ds st ext =
     (let overviewIndex = gdal_get_best_overview ds ext
      in if mode st = VIEWER_MODE_RGB then gdal_read_multiband env ds overviewIndex st ext
         else gdal_read_singleband env ds overviewIndex st ext)"

section \<open>Notions of the statements and example data\<close>









text \<open>Example data: a continuous band, a thematic band with a complete colour table,
  and rules of the default list.\<close>

definition no_io :: "readInfo \<Rightarrow> nat \<Rightarrow> real option" where
  "no_io info i = None"

definition plain_band :: band where
  "plain_band =
     \<lparr>full = \<lparr>x_size = 100, y_size = 100, raster_io = no_io\<rparr>, overviews = [],
      LAYER_TYPE = None, STATISTICS_MINIMUM = Some 0, STATISTICS_MAXIMUM = Some 255,
      STATISTICS_MEAN = Some 100, STATISTICS_STDDEV = Some 20, default_rat = None\<rparr>"

definition rgba_table :: attribute_table where
  "rgba_table =
     \<lparr>row_count = 2,
      columns = [\<lparr>usage = GFU_Red, as_integer = (\<lambda>i. [10, 11] ! i)\<rparr>,
                 \<lparr>usage = GFU_Green, as_integer = (\<lambda>i. [20, 21] ! i)\<rparr>,
                 \<lparr>usage = GFU_Blue, as_integer = (\<lambda>i. [30, 31] ! i)\<rparr>,
                 \<lparr>usage = GFU_Alpha, as_integer = (\<lambda>i. [255, 255] ! i)\<rparr>]\<rparr>"

definition thematic_band :: band where
  "thematic_band = plain_band\<lparr>LAYER_TYPE := Some ''thematic'', default_rat := Some rgba_table\<rparr>"

definition north_up :: geotransform where
  "north_up = (0, 1, 0, 100, 0, -1)"

definition dataset_of :: "band list \<Rightarrow> dataset" where
  "dataset_of bs =
     \<lparr>raster_x_size = 100, raster_y_size = 100, geo_transform = Some north_up, raster_bands = bs\<rparr>"

definition rule_colortable :: "int \<Rightarrow> stretch" where
  "rule_colortable ct =
     \<lparr>comp_rule = VIEWER_COMP_EQ, value_rule = 1, ctband = ct, mode = VIEWER_MODE_COLORTABLE,
      stretchmode = VIEWER_STRETCHMODE_NONE, stretchparam = (0, 0), bands = (1, 0, 0)\<rparr>"

definition rule_greyscale :: stretch where
  "rule_greyscale =
     \<lparr>comp_rule = VIEWER_COMP_EQ, value_rule = 1, ctband = -1, mode = VIEWER_MODE_GREYSCALE,
      stretchmode = VIEWER_STRETCHMODE_NONE, stretchparam = (0, 0), bands = (1, 0, 0)\<rparr>"

definition chosen_overview :: "dataset \<Rightarrow> int \<Rightarrow> level" where
  "chosen_overview ds r = band1_overviews ds ! nat (r - 1)"

definition pyramid_band :: band where
  "pyramid_band =
     plain_band\<lparr>overviews := [\<lparr>x_size = 50, y_size = 50, raster_io = no_io\<rparr>,
                              \<lparr>x_size = 25, y_size = 25, raster_io = no_io\<rparr>]\<rparr>"

definition view :: "real \<Rightarrow> real \<Rightarrow> real \<Rightarrow> extent" where
  "view x y m = \<lparr>dCentreX = x, dCentreY = y, dMetersPerCell = m\<rparr>"

definition with_stretchmode :: "int \<Rightarrow> real \<times> real \<Rightarrow> stretch" where
  "with_stretchmode m param = rule_greyscale\<lparr>stretchmode := m, stretchparam := param\<rparr>"

definition band_with_range :: "real \<Rightarrow> real \<Rightarrow> band" where
  "band_with_range lo hi = plain_band\<lparr>STATISTICS_MINIMUM := Some lo, STATISTICS_MAXIMUM := Some hi\<rparr>"

definition without_geotransform :: "dataset \<Rightarrow> dataset" where
  "without_geotransform ds = ds\<lparr>geo_transform := None\<rparr>"

definition canvas :: "int \<Rightarrow> int \<Rightarrow> environment" where
  "canvas cw ch =
     \<lparr>ww = cw, wh = ch, beyond_histogram = 0, fresh_memory = (\<lambda>i. 0),
      caca_create_dither = (\<lambda>x y. True)\<rparr>"

definition rule_rgb :: stretch where
  "rule_rgb =
     \<lparr>comp_rule = VIEWER_COMP_EQ, value_rule = 3, ctband = -1, mode = VIEWER_MODE_RGB,
      stretchmode = VIEWER_STRETCHMODE_NONE, stretchparam = (0, 0), bands = (1, 2, 3)\<rparr>"

text \<open>The pixels per cell of an overview as the specification words them: the metres
  per cell divided by the ground pixel size of the level, which is the pixel size of the
  dataset times the ratio of the widths.\<close>

definition spec_pixels_per_cell :: "dataset \<Rightarrow> geotransform \<Rightarrow> extent \<Rightarrow> level \<Rightarrow> real" where
  "spec_pixels_per_cell ds adfTransform ext ovh =
     (case adfTransform of (g0, g1, g2, g3, g4, g5) \<Rightarrow>
        dMetersPerCell ext / (g1 * (real_of_int (raster_x_size ds) / real_of_int (x_size ovh))))"

text \<open>A raster of 1001 by 1001 pixels of size 1 with the overviews that GDAL builds for
  the factors 2 and 4, whose sizes are rounded up.\<close>

definition odd_transform :: geotransform where
  "odd_transform = (0, 1, 0, 1001, 0, -1)"

definition odd_pyramid :: dataset where
  "odd_pyramid =
     \<lparr>raster_x_size = 1001, raster_y_size = 1001, geo_transform = Some odd_transform,
      raster_bands =
        [plain_band\<lparr>full := \<lparr>x_size = 1001, y_size = 1001, raster_io = no_io\<rparr>,
                     overviews := [\<lparr>x_size = 501, y_size = 501, raster_io = no_io\<rparr>,
                                   \<lparr>x_size = 251, y_size = 251, raster_io = no_io\<rparr>]\<rparr>]\<rparr>"

section \<open>Properties of the matcher\<close>







text \<open>On a band that exists and is not thematic, \<^verbatim>\<open>match\<close> keeps the value of the
  count comparison: with the first two default rules, a dataset of one continuous band
  gets the colour table rule, not the greyscale rule that follows it.\<close>

lemma get_stretch_for_gdal_continuous_band:
  "get_stretch_for_gdal [rule_colortable 1, rule_greyscale] (dataset_of [plain_band])
     = Some (rule_colortable 1)"
  by (simp add: count_match_def ctband_match_def GDALGetRasterCount_def dataset_of_def
      rule_colortable_def layer_type_of_def GDALGetRasterBand_def plain_band_def)

section \<open>Properties of the overview selector and of the stretch\<close>

lemma overview_loop_inv:
  assumes "overview_loop f xs c (d, n) = (d', n')"
  shows "d' \<le> d \<and> (\<forall>x \<in> set xs. f x > 30 \<longrightarrow> d' \<le> f x) \<and>
         ((n' = n \<and> d' = d) \<or>
          (\<exists>i < length xs. n' = int (c + i) + 1 \<and> d' = f (xs ! i) \<and> f (xs ! i) > 30 \<and> d' < d))"
  using assms
proof (induction xs arbitrary: c d n)
  case Nil
  then show ?case by simp
next
  case (Cons x xs)
  show ?case
  proof (cases "f x > 30 \<and> f x < d")
    case True
    then have "overview_loop f xs (c + 1) (f x, int c + 1) = (d', n')"
      using Cons.prems by simp
    from Cons.IH [OF this]
    have le: "d' \<le> f x" and all: "\<forall>y \<in> set xs. f y > 30 \<longrightarrow> d' \<le> f y"
      and dis: "(n' = int c + 1 \<and> d' = f x) \<or>
                (\<exists>i < length xs. n' = int (c + 1 + i) + 1 \<and> d' = f (xs ! i) \<and> f (xs ! i) > 30 \<and> d' < f x)"
      by blast+
    have 1: "d' \<le> d" using le True by linarith
    have 2: "\<forall>y \<in> set (x # xs). f y > 30 \<longrightarrow> d' \<le> f y" using le all by simp
    have 3: "\<exists>i < length (x # xs). n' = int (c + i) + 1 \<and> d' = f ((x # xs) ! i) \<and>
               f ((x # xs) ! i) > 30 \<and> d' < d"
      using dis
    proof
      assume "n' = int c + 1 \<and> d' = f x"
      then have "0 < length (x # xs) \<and> n' = int (c + 0) + 1 \<and> d' = f ((x # xs) ! 0) \<and>
               f ((x # xs) ! 0) > 30 \<and> d' < d"
        using True by simp
      then show ?thesis by blast
    next
      assume "\<exists>i < length xs. n' = int (c + 1 + i) + 1 \<and> d' = f (xs ! i) \<and> f (xs ! i) > 30 \<and> d' < f x"
      then obtain i where "i < length xs" "n' = int (c + 1 + i) + 1" "d' = f (xs ! i)"
        "f (xs ! i) > 30" "d' < f x"
        by blast
      then have "Suc i < length (x # xs) \<and> n' = int (c + Suc i) + 1 \<and> d' = f ((x # xs) ! Suc i) \<and>
               f ((x # xs) ! Suc i) > 30 \<and> d' < d"
        using True by simp
      then show ?thesis by blast
    qed
    show ?thesis using 1 2 3 by blast
  next
    case False
    then have "overview_loop f xs (c + 1) (d, n) = (d', n')"
      using Cons.prems by (simp split: if_splits)
    from Cons.IH [OF this]
    have le: "d' \<le> d" and all: "\<forall>y \<in> set xs. f y > 30 \<longrightarrow> d' \<le> f y"
      and dis: "(n' = n \<and> d' = d) \<or>
                (\<exists>i < length xs. n' = int (c + 1 + i) + 1 \<and> d' = f (xs ! i) \<and> f (xs ! i) > 30 \<and> d' < d)"
      by blast+
    have 2: "\<forall>y \<in> set (x # xs). f y > 30 \<longrightarrow> d' \<le> f y"
      using le all False by auto
    have 3: "(n' = n \<and> d' = d) \<or> (\<exists>i < length (x # xs). n' = int (c + i) + 1 \<and> d' = f ((x # xs) ! i) \<and>
               f ((x # xs) ! i) > 30 \<and> d' < d)"
      using dis
    proof
      assume "n' = n \<and> d' = d"
      then show ?thesis by blast
    next
      assume "\<exists>i < length xs. n' = int (c + 1 + i) + 1 \<and> d' = f (xs ! i) \<and> f (xs ! i) > 30 \<and> d' < d"
      then obtain i where "i < length xs" "n' = int (c + 1 + i) + 1" "d' = f (xs ! i)"
        "f (xs ! i) > 30" "d' < d"
        by blast
      then have "Suc i < length (x # xs) \<and> n' = int (c + Suc i) + 1 \<and> d' = f ((x # xs) ! Suc i) \<and>
               f ((x # xs) ! Suc i) > 30 \<and> d' < d"
        by simp
      then show ?thesis by blast
    qed
    show ?thesis using le 2 3 by blast
  qed
qed

lemma overview_loop_none:
  "\<forall>x \<in> set xs. \<not> (f x > 30 \<and> f x < d) \<Longrightarrow> overview_loop f xs c (d, n) = (d, n)"
  by (induction xs arbitrary: c) auto

lemma overview_loop_some:
  assumes "\<exists>x \<in> set xs. f x > 30 \<and> f x < d" and "n \<le> int c"
  shows "snd (overview_loop f xs c (d, n)) > int c"
  using assms
proof (induction xs arbitrary: c d n)
  case Nil
  then show ?case by simp
next
  case (Cons x xs)
  obtain d' n' where r: "overview_loop f (x # xs) c (d, n) = (d', n')"
    by (cases "overview_loop f (x # xs) c (d, n)")
  show ?case
  proof (cases "f x > 30 \<and> f x < d")
    case True
    then have e: "overview_loop f xs (c + 1) (f x, int c + 1) = (d', n')"
      using r by simp
    from overview_loop_inv [OF e] have "n' \<ge> int c + 1" by auto
    then show ?thesis using r by simp
  next
    case False
    then have e: "overview_loop f (x # xs) c (d, n) = overview_loop f xs (c + 1) (d, n)"
      by auto
    have "\<exists>y \<in> set xs. f y > 30 \<and> f y < d" using Cons.prems(1) False by auto
    from Cons.IH [OF this, of n "c + 1"] Cons.prems(2) show ?thesis
      using e by simp
  qed
qed

text \<open>What the selector guarantees is in terms of its own figure \<open>dPixelsPerCell\<close>, in
  which the factor of an overview is the integer quotient of the widths. For a dataset
  with a geotransform and any extent: a level other than 0 that the selector returns is
  an overview of band 1 whose figure exceeds the target of 30, and no overview whose
  figure exceeds the target has a smaller one; if no figure exceeds the target the
  selector returns level 0; and if some figure exceeds the target and is below the one of
  the full resolution, the selector returns an overview.

  The quotients are real numbers here. Where the pixel size or the factor of an overview
  is zero the C quotient is an infinity or not a number, every comparison of the loop
  that would take the overview fails, and the level returned is the one of this model.\<close>

lemma gdal_get_best_overview_level:
  assumes "geo_transform ds = Some gt"
  shows "(gdal_get_best_overview ds ext \<noteq> 0 \<longrightarrow>
            1 \<le> gdal_get_best_overview ds ext \<and>
            gdal_get_best_overview ds ext \<le> int (length (band1_overviews ds)) \<and>
            dPixelsPerCell ds gt ext (chosen_overview ds (gdal_get_best_overview ds ext))
              > real_of_int PIX_PER_CELL \<and>
            (\<forall>ov \<in> set (band1_overviews ds).
               dPixelsPerCell ds gt ext ov > real_of_int PIX_PER_CELL \<longrightarrow>
               dPixelsPerCell ds gt ext (chosen_overview ds (gdal_get_best_overview ds ext))
                 \<le> dPixelsPerCell ds gt ext ov)) \<and>
         ((\<forall>ov \<in> set (band1_overviews ds). \<not> dPixelsPerCell ds gt ext ov > real_of_int PIX_PER_CELL) \<longrightarrow>
            gdal_get_best_overview ds ext = 0) \<and>
         ((\<exists>ov \<in> set (band1_overviews ds).
             dPixelsPerCell ds gt ext ov > real_of_int PIX_PER_CELL \<and>
             dPixelsPerCell ds gt ext ov < full_res_pixels_per_cell gt ext) \<longrightarrow>
            gdal_get_best_overview ds ext \<noteq> 0)"
proof (cases "band1_overviews ds = []")
  case True
  then show ?thesis
    by (simp add: gdal_get_best_overview_def)
next
  case False
  define f where "f = dPixelsPerCell ds gt ext"
  define d0 where "d0 = full_res_pixels_per_cell gt ext"
  obtain d' n' where loop: "overview_loop f (band1_overviews ds) 0 (d0, 0) = (d', n')"
    by (cases "overview_loop f (band1_overviews ds) 0 (d0, 0)")
  have r: "gdal_get_best_overview ds ext = n'"
    using False assms loop by (simp add: gdal_get_best_overview_def f_def d0_def)
  note inv = overview_loop_inv [OF loop]
  have a: "n' \<noteq> 0 \<longrightarrow> 1 \<le> n' \<and> n' \<le> int (length (band1_overviews ds)) \<and>
             f (chosen_overview ds n') > 30 \<and>
             (\<forall>ov \<in> set (band1_overviews ds). f ov > 30 \<longrightarrow> f (chosen_overview ds n') \<le> f ov)"
    using inv by (auto simp: chosen_overview_def)
  have b: "(\<forall>ov \<in> set (band1_overviews ds). \<not> f ov > 30) \<longrightarrow> n' = 0"
    using overview_loop_none [of "band1_overviews ds" f d0 0 0] loop by auto
  have c: "(\<exists>ov \<in> set (band1_overviews ds). f ov > 30 \<and> f ov < d0) \<longrightarrow> n' \<noteq> 0"
    using overview_loop_some [of "band1_overviews ds" f d0 0 0] loop by auto
  show ?thesis
    using a b c unfolding r f_def d0_def by simp
qed

lemma dataset_of_simps:
  "geo_transform (dataset_of bs) = Some north_up" "raster_x_size (dataset_of bs) = 100"
  "raster_y_size (dataset_of bs) = 100" "raster_bands (dataset_of bs) = bs"
  by (simp_all add: dataset_of_def)

lemma pyramid_overviews:
  "band1_overviews (dataset_of [pyramid_band]) =
     [\<lparr>x_size = 50, y_size = 50, raster_io = no_io\<rparr>, \<lparr>x_size = 25, y_size = 25, raster_io = no_io\<rparr>]"
  by (simp add: band1_overviews_def GDALGetRasterBand_def GDALGetRasterCount_def dataset_of_def
      pyramid_band_def plain_band_def)

lemma pyramid_best_100: "gdal_get_best_overview (dataset_of [pyramid_band]) (view 50 50 100) = 1"
  by (simp add: gdal_get_best_overview_def pyramid_overviews dataset_of_simps north_up_def
      dPixelsPerCell_def full_res_pixels_per_cell_def view_def signed_divide_int_def)

lemma pyramid_best_10: "gdal_get_best_overview (dataset_of [pyramid_band]) (view 50 50 10) = 0"
  by (simp add: gdal_get_best_overview_def pyramid_overviews dataset_of_simps north_up_def
      dPixelsPerCell_def full_res_pixels_per_cell_def view_def signed_divide_int_def)

lemma gdal_get_best_overview_level_example:
  "geo_transform (dataset_of [pyramid_band]) = Some north_up \<and>
   gdal_get_best_overview (dataset_of [pyramid_band]) (view 50 50 100) = 1 \<and>
   dPixelsPerCell (dataset_of [pyramid_band]) north_up (view 50 50 100)
     (chosen_overview (dataset_of [pyramid_band]) 1) = 50 \<and>
   dPixelsPerCell (dataset_of [pyramid_band]) north_up (view 50 50 100)
     (chosen_overview (dataset_of [pyramid_band]) 2) = 25 \<and>
   full_res_pixels_per_cell north_up (view 50 50 100) = 100 \<and>
   dPixelsPerCell (dataset_of [pyramid_band]) north_up (view 50 50 10)
     (chosen_overview (dataset_of [pyramid_band]) 1) = 5 \<and>
   dPixelsPerCell (dataset_of [pyramid_band]) north_up (view 50 50 10)
     (chosen_overview (dataset_of [pyramid_band]) 2) = 5 / 2 \<and>
   gdal_get_best_overview (dataset_of [pyramid_band]) (view 50 50 10) = 0"
proof -
  have g: "geo_transform (dataset_of [pyramid_band]) = Some north_up"
    by (simp add: dataset_of_def)
  have c: "dPixelsPerCell (dataset_of [pyramid_band]) north_up (view 50 50 100)
             (chosen_overview (dataset_of [pyramid_band]) 1) = 50"
    "dPixelsPerCell (dataset_of [pyramid_band]) north_up (view 50 50 100)
             (chosen_overview (dataset_of [pyramid_band]) 2) = 25"
    "full_res_pixels_per_cell north_up (view 50 50 100) = 100"
    "dPixelsPerCell (dataset_of [pyramid_band]) north_up (view 50 50 10)
             (chosen_overview (dataset_of [pyramid_band]) 1) = 5"
    "dPixelsPerCell (dataset_of [pyramid_band]) north_up (view 50 50 10)
             (chosen_overview (dataset_of [pyramid_band]) 2) = 5 / 2"
    by (simp_all add: chosen_overview_def pyramid_overviews dPixelsPerCell_def north_up_def
        dataset_of_simps view_def signed_divide_int_def full_res_pixels_per_cell_def)
  have n: "\<forall>ov \<in> set (band1_overviews (dataset_of [pyramid_band])).
      \<not> dPixelsPerCell (dataset_of [pyramid_band]) north_up (view 50 50 10) ov > real_of_int PIX_PER_CELL"
    by (simp add: pyramid_overviews)
       (simp add: dPixelsPerCell_def north_up_def dataset_of_simps view_def signed_divide_int_def)
  show ?thesis
    using g c n pyramid_best_100
      gdal_get_best_overview_level [OF g, of "view 50 50 100"]
      gdal_get_best_overview_level [OF g, of "view 50 50 10"]
    by simp
qed

text \<open>The figure of the selector is the pixels per cell of the specification where the
  width of the overview divides the width of the raster.\<close>

lemma dPixelsPerCell_exact_factor:
  assumes "0 < x_size ovh" and "0 \<le> k" and "raster_x_size ds = k * x_size ovh"
  shows "dPixelsPerCell ds gt ext ovh = spec_pixels_per_cell ds gt ext ovh"
proof -
  have "raster_x_size ds sdiv x_size ovh = k"
    using assms by (cases "k = 0") (simp_all add: signed_divide_int_def sgn_mult abs_mult)
  moreover have "real_of_int (raster_x_size ds) / real_of_int (x_size ovh) = real_of_int k"
    using assms by simp
  ultimately show ?thesis
    by (simp add: dPixelsPerCell_def spec_pixels_per_cell_def split: prod.splits)
qed

lemma odd_pyramid_overviews:
  "band1_overviews odd_pyramid =
     [\<lparr>x_size = 501, y_size = 501, raster_io = no_io\<rparr>, \<lparr>x_size = 251, y_size = 251, raster_io = no_io\<rparr>]"
  by (simp add: band1_overviews_def GDALGetRasterBand_def GDALGetRasterCount_def odd_pyramid_def
      plain_band_def)

lemma odd_pyramid_simps:
  "geo_transform odd_pyramid = Some odd_transform" "raster_x_size odd_pyramid = 1001"
  by (simp_all add: odd_pyramid_def)

text \<open>
  Claim C4 says that the selector never returns an overview whose pixels per cell, the
  metres per cell divided by the ground pixel size of the level, are below the target of
  30, and that it prefers the overview closest to the target among those above it. On a
  raster 1001 pixels wide of pixel size 1 with overviews 501 and 251 pixels wide, at 100
  metres per cell, the integer quotients of the widths are 1 and 3: the first overview
  gets the figure of the full resolution and is passed over, although it has
  \<open>50100 / 1001\<close> pixels per cell, about 50.05, and the selector returns level 2, whose
  figure is \<open>100 / 3\<close> and whose pixels per cell are \<open>25100 / 1001\<close>, about 25.07.
\<close>

theorem gdal_get_best_overview_failing_input:
  "gdal_get_best_overview odd_pyramid (view 500 500 100) = 2 \<and>
   spec_pixels_per_cell odd_pyramid odd_transform (view 500 500 100) (chosen_overview odd_pyramid 2)
     = 25100 / 1001 \<and>
   spec_pixels_per_cell odd_pyramid odd_transform (view 500 500 100) (chosen_overview odd_pyramid 2)
     < real_of_int PIX_PER_CELL \<and>
   spec_pixels_per_cell odd_pyramid odd_transform (view 500 500 100) (chosen_overview odd_pyramid 1)
     = 50100 / 1001 \<and>
   dPixelsPerCell odd_pyramid odd_transform (view 500 500 100) (chosen_overview odd_pyramid 1) = 100 \<and>
   dPixelsPerCell odd_pyramid odd_transform (view 500 500 100) (chosen_overview odd_pyramid 2) = 100 / 3"
  by (simp add: gdal_get_best_overview_def odd_pyramid_overviews odd_pyramid_simps odd_transform_def
      dPixelsPerCell_def full_res_pixels_per_cell_def spec_pixels_per_cell_def chosen_overview_def
      view_def signed_divide_int_def)

lemma band_with_range_simps:
  "STATISTICS_MINIMUM (band_with_range lo hi) = Some lo"
  "STATISTICS_MAXIMUM (band_with_range lo hi) = Some hi"
  "STATISTICS_MEAN (band_with_range lo hi) = Some 100"
  "STATISTICS_STDDEV (band_with_range lo hi) = Some 20"
  by (simp_all add: band_with_range_def plain_band_def)

lemma with_stretchmode_simps:
  "stretchmode (with_stretchmode m param) = m" "stretchparam (with_stretchmode m param) = param"
  by (simp_all add: with_stretchmode_def)

text \<open>
  Claim C7. For every mean, standard deviation, minimum, maximum and stretch parameter,
  the standard deviation stretch returns a buffer of the same size in which every
  sample that was exactly 0 is 0.
\<close>

theorem do_stretch_stddev_zero:
  assumes "stretchmode st = VIEWER_STRETCHMODE_STDDEV"
    and "STATISTICS_MINIMUM b = Some dMin" and "STATISTICS_MAXIMUM b = Some dMax"
    and "STATISTICS_MEAN b = Some mean" and "STATISTICS_STDDEV b = Some stddev"
  shows "\<exists>out. do_stretch beyond pBuffer (Some b) st = Inr out \<and> length out = length pBuffer \<and>
           (\<forall>n < length pBuffer. pBuffer ! n = 0 \<longrightarrow> out ! n = 0)"
  using assms by (simp add: do_stretch_def metadata_of_def stddev_sample_def)

theorem do_stretch_stddev_zero_witness:
  "stretchmode (with_stretchmode VIEWER_STRETCHMODE_STDDEV (2, 0)) = VIEWER_STRETCHMODE_STDDEV \<and>
   STATISTICS_MINIMUM (band_with_range (- 10) 255) = Some (- 10) \<and>
   STATISTICS_MAXIMUM (band_with_range (- 10) 255) = Some 255 \<and>
   STATISTICS_MEAN (band_with_range (- 10) 255) = Some 100 \<and>
   STATISTICS_STDDEV (band_with_range (- 10) 255) = Some 20 \<and>
   do_stretch 7 [0, 5, 130] (Some (band_with_range (- 10) 255))
     (with_stretchmode VIEWER_STRETCHMODE_STDDEV (2, 0)) = Inr [0, 0, 1785 / 8]"
proof -
  have e: "do_stretch 7 [0, 5, 130] (Some (band_with_range (- 10) 255))
     (with_stretchmode VIEWER_STRETCHMODE_STDDEV (2, 0)) = Inr [0, 0, 1785 / 8]"
    by (simp add: do_stretch_def metadata_of_def stddev_sample_def store_dVal_def
        band_with_range_simps with_stretchmode_simps)
  show ?thesis
    using e do_stretch_stddev_zero [of "with_stretchmode VIEWER_STRETCHMODE_STDDEV (2, 0)"
        "band_with_range (- 10) 255" "- 10" 255 100 20 7 "[0, 5, 130]"]
    by (simp add: band_with_range_simps with_stretchmode_simps)
qed

text \<open>
  Claim C2 says that the linear stretch of a sample \<open>v\<close> is
  \<open>(v - min) * 255 / (max - min)\<close> cut to the range 0 to 255. At minimum 0, maximum 510
  and a sample of 100 that formula gives \<open>100 * 255 / 510 = 50\<close>; the code multiplies by
  \<open>(510 - 0) / 255 = 2\<close> and stores 200.
\<close>

theorem do_stretch_linear_failing_input:
  "do_stretch 0 [100] (Some (band_with_range 0 510)) (with_stretchmode VIEWER_STRETCHMODE_LINEAR (0, 0))
     = Inr [200] \<and>
   spec_linear 0 510 100 = 50"
  by (simp add: do_stretch_def metadata_of_def linear_sample_def store_dVal_def spec_linear_def
      band_with_range_simps with_stretchmode_simps)

text \<open>What the linear stretch does: the ends of the range go to 0 and 255, and in
  between the distance to the minimum is multiplied by the range over 255.\<close>

lemma linear_sample_ends:
  "v \<le> dMin \<Longrightarrow> linear_sample dMin dMax v = 0"
  "dMin < v \<Longrightarrow> dMax \<le> v \<Longrightarrow> linear_sample dMin dMax v = 255"
  by (simp_all add: linear_sample_def)

lemma linear_sample_formula:
  "linear_sample dMin dMax v =
     (if v \<le> dMin then 0 else if v \<ge> dMax then 255
      else max 0 (min 255 ((v - dMin) * (dMax - dMin) / 255)))"
  by (simp add: linear_sample_def store_dVal_def Let_def max_def min_def)

lemma lower_scan_range:
  "lower_scan xs n s lo = Some k \<Longrightarrow> n \<le> k \<and> k < n + int (length xs)"
  by (induction xs arbitrary: n s) (force split: if_splits)+

lemma upper_scan_range:
  "upper_scan xs n s up = Some k \<Longrightarrow> n - int (length xs) < k \<and> k \<le> n"
  by (induction xs arbitrary: n s) (force split: if_splits)+

lemma sdiv_small: "0 \<le> a \<Longrightarrow> a < b \<Longrightarrow> a sdiv b = (0::int)"
  by (simp add: signed_divide_int_def)

lemma sdiv_minus_one: "2 \<le> b \<Longrightarrow> (- 1) sdiv b = (0::int)"
  by (simp add: signed_divide_int_def)

text \<open>With two bins or more both integer quotients of \<open>histogram_bounds\<close> are
  zero: the bounds are the statistics, whatever the histogram and the parameters.\<close>

lemma histogram_bounds_are_statistics:
  assumes "2 \<le> length pHisto"
  shows "histogram_bounds beyond pHisto dMin dMax param = (dMin, dMax)"
proof -
  define nbins where "nbins = int (length pHisto)"
  have nb: "2 \<le> nbins" using assms by (simp add: nbins_def)
  have lo: "real_of_int (k sdiv nbins) = 0"
    if "lower_scan pHisto 0 0 lo = Some k" for k lo
    using lower_scan_range [OF that] sdiv_small [of k nbins] by (simp add: nbins_def)
  have up: "real_of_int ((nbins - k - 1) sdiv nbins) = 0"
    if "upper_scan (beyond # rev pHisto) nbins 0 up = Some k" for k up
  proof (cases "k = nbins")
    case True
    then show ?thesis using sdiv_minus_one [OF nb] by simp
  next
    case False
    then have "0 \<le> nbins - k - 1 \<and> nbins - k - 1 < nbins"
      using upper_scan_range [OF that] by (simp add: nbins_def)
    then show ?thesis using sdiv_small by simp
  qed
  have dmin: "(case lower_scan pHisto 0 0 l of None \<Rightarrow> dMin
               | Some n \<Rightarrow> dMin + (dMax - dMin) * real_of_int (n sdiv nbins)) = dMin" for l
    by (cases "lower_scan pHisto 0 0 l") (simp_all add: lo)
  have dmax: "(case upper_scan (beyond # rev pHisto) nbins 0 u of None \<Rightarrow> dMax
               | Some n \<Rightarrow> dMax + real_of_int ((nbins - n - 1) sdiv nbins)) = dMax" for u
    by (cases "upper_scan (beyond # rev pHisto) nbins 0 u") (simp_all only: up option.case add_0_right)
  show ?thesis
    unfolding histogram_bounds_def Let_def nbins_def [symmetric] dmin dmax ..
qed

text \<open>With a single bin the scan from the top can stop at the int beyond the
  histogram, and the upper bound is then the maximum minus 1.\<close>

lemma histogram_bounds_single_bin:
  "histogram_bounds 100 [5] 3 3 (0, 1) = (3, 2)"
  by (simp add: histogram_bounds_def signed_divide_int_def)

text \<open>
  Claim C6 says that the bounds of the histogram stretch are interpolated over the
  range of the statistics from the positions of the first bins whose cumulative count
  exceeds the clips. On four bins of 10 pixels each, statistics 0 and 100 and the
  parameters 0.5 and 0.9, the cumulative count first exceeds 20 at bin 2, which
  interpolates to 50; the code's bounds are 0 and 100, whatever int lies beyond the
  histogram.
\<close>

theorem histogram_bounds_failing_input:
  "histogram_bounds beyond [10, 10, 10, 10] 0 100 (1 / 2, 9 / 10) = (0, 100) \<and>
   spec_stretch_min [10, 10, 10, 10] 0 100 (1 / 2) = 50"
  using histogram_bounds_are_statistics [of "[10, 10, 10, 10]" beyond 0 100 "(1 / 2, 9 / 10)"]
  by (simp add: spec_stretch_min_def)

text \<open>
  Claim C9, as amended. When the dataset carries no geotransform, the overview selector
  returns level 0, the full resolution, and reports nothing; the window mapper, which
  runs next on that level, fails with the message "Image has no geotransform".
\<close>

theorem no_geotransform_full_resolution:
  assumes "geo_transform ds = None"
  shows "gdal_get_best_overview ds ext = 0 \<and>
         prepare_for_reading cw ch dataWidth dataHeight ds ovh ext
           = Inl (Message ''Image has no geotransform'')"
  using assms by (simp add: gdal_get_best_overview_def prepare_for_reading_def)

theorem no_geotransform_full_resolution_witness:
  "geo_transform (without_geotransform (dataset_of [pyramid_band])) = None \<and>
   gdal_get_best_overview (without_geotransform (dataset_of [pyramid_band])) (view 50 50 100) = 0 \<and>
   prepare_for_reading 80 24 2400 720 (without_geotransform (dataset_of [pyramid_band]))
     (full pyramid_band) (view 50 50 100) = Inl (Message ''Image has no geotransform'')"
proof -
  have g: "geo_transform (without_geotransform (dataset_of [pyramid_band])) = None"
    by (simp add: without_geotransform_def)
  show ?thesis
    using g no_geotransform_full_resolution [OF g] by simp
qed

text \<open>
  Claim C9 as stated fails: on a dataset with two overviews and no geotransform the
  selector returns level 0, a resolution level like any other.
\<close>

theorem gdal_get_best_overview_counterexample:
  "geo_transform (without_geotransform (dataset_of [pyramid_band])) = None \<and>
   length (band1_overviews (without_geotransform (dataset_of [pyramid_band]))) = 2 \<and>
   gdal_get_best_overview (without_geotransform (dataset_of [pyramid_band])) (view 50 50 100) = 0"
  by (simp add: without_geotransform_def gdal_get_best_overview_def band1_overviews_def
      GDALGetRasterBand_def GDALGetRasterCount_def dataset_of_simps pyramid_band_def)

section \<open>Properties of the window mapper and of the readers\<close>

lemma north_up_inverse: "GDALInvGeoTransform north_up = Some north_up"
  by (simp add: GDALInvGeoTransform_def north_up_def)

lemma plain_level:
  "level_transform (dataset_of bs) (full plain_band) north_up = north_up"
  "x_size (full plain_band) = 100" "y_size (full plain_band) = 100"
  by (simp_all add: level_transform_def dataset_of_simps plain_band_def north_up_def
      signed_divide_int_def)

text \<open>
  Claim C3 says that the width and height to read are never negative, and that one of
  them is 0 for a view outside the raster. Take a view that lies to the right of the
  raster: a canvas of 10 by 4 cells, a raster of 100 by 100 pixels of size 1, and a view
  centred at (250, 50) with 10 metres per cell. The corners map to the columns 200 and
  300; only the right one is brought back, to 99, and the width to read is
  \<open>round (99 - 200) = - 101\<close>, while the height is 40: one is negative, neither is 0.
\<close>

theorem prepare_for_reading_outside:
  "prepare_for_reading 10 4 300 120 (dataset_of [plain_band]) (full plain_band) (view 250 50 10)
     = Inr \<lparr>nXOff = 200, nYOff = 30, nXSize = - 101, nYSize = 40, nDataOffset = 0,
            nBufXSize = - 297, nBufYSize = 120\<rparr>"
  by (simp add: prepare_for_reading_def dataset_of_simps plain_level north_up_inverse)
     (simp add: view_corners_def view_def GDALApplyGeoTransform_def north_up_def clip_window_def
        c_round_def c_trunc_def)

text \<open>
  Claim C8 says that every view whose corners map inside the raster uses the whole
  destination, from offset 0. On a view of a tenth of a pixel in the middle of the
  raster the corners lie inside the raster, \<^verbatim>\<open>origWidthIn\<close> and \<^verbatim>\<open>origHeightIn\<close> round
  to 0, and the division of the extras by them has no defined result.
\<close>

theorem prepare_for_reading_zoomed_in:
  "view_corners 1 1 (view 50 50 (1 / 10)) north_up = ((999 / 20, 999 / 20), (1001 / 20, 1001 / 20)) \<and>
   prepare_for_reading 1 1 30 30 (dataset_of [plain_band]) (full plain_band) (view 50 50 (1 / 10))
     = Inl Undefined"
  by (simp add: prepare_for_reading_def dataset_of_simps plain_level north_up_inverse)
     (simp add: view_corners_def view_def GDALApplyGeoTransform_def north_up_def clip_window_def
        c_round_def c_trunc_def)

text \<open>What the window mapper does guarantee: the sizes to read never exceed the
  sizes of the level, and a view inside the raster that spans at least half a pixel
  each way uses the whole destination.\<close>

lemma c_round_less: "y < real_of_int n \<Longrightarrow> c_round y \<le> n"
  unfolding c_round_def by (auto simp: floor_le_iff) linarith

lemma clip_window_sizes_bounded:
  assumes "clip_window dataWidth dataHeight width height (x1, y1) (x2, y2) = Inr info"
  shows "nXSize info \<le> width \<and> nYSize info \<le> height"
proof -
  define x1' where "x1' = (if x1 < 0 then 0 else x1)"
  define x2' where "x2' = (if x2 \<ge> real_of_int width then real_of_int width - 1 else x2)"
  define y1' where "y1' = (if y1 < 0 then 0 else y1)"
  define y2' where "y2' = (if y2 \<ge> real_of_int height then real_of_int height - 1 else y2)"
  have sz: "nXSize info = c_round (x2' - x1')" "nYSize info = c_round (y2' - y1')"
    using assms
    by (auto simp: clip_window_def Let_def x1'_def x2'_def y1'_def y2'_def split: if_splits)
  have "x2' - x1' < real_of_int width" "y2' - y1' < real_of_int height"
    by (auto simp: x1'_def x2'_def y1'_def y2'_def)
  then show ?thesis
    using c_round_less sz by simp
qed

lemma clip_window_inside:
  assumes "0 \<le> x1" "x1 < real_of_int width" "0 \<le> x2" "x2 < real_of_int width"
    and "0 \<le> y1" "y1 < real_of_int height" "0 \<le> y2" "y2 < real_of_int height"
    and "c_round (x2 - x1) \<noteq> 0" "c_round (y2 - y1) \<noteq> 0"
  shows "clip_window dataWidth dataHeight width height (x1, y1) (x2, y2)
           = Inr \<lparr>nXOff = c_trunc x1, nYOff = c_trunc y1, nXSize = c_round (x2 - x1),
                  nYSize = c_round (y2 - y1), nDataOffset = 0, nBufXSize = dataWidth,
                  nBufYSize = dataHeight\<rparr>"
  using assms by (simp add: clip_window_def c_trunc_def)

lemma thematic_band_rat: "GDALGetDefaultRAT (Some thematic_band) = Some rgba_table"
  by (simp add: GDALGetDefaultRAT_def thematic_band_def)

lemma upt_2: "[0..<2] = [0, 1]"
  by (simp add: upt_rec)

text \<open>The view that \<^verbatim>\<open>gdal_open_file\<close> starts with covers the raster exactly: the right
  and bottom corners map to the width and the height, the extras there are
  \<open>- 1\<close>, and the size to fill exceeds the destination of 300 by 300.\<close>

lemma prepare_for_reading_full_extent:
  "prepare_for_reading 10 10 300 300 (dataset_of [plain_band]) (full plain_band) (view 50 50 10)
     = Inr \<lparr>nXOff = 0, nYOff = 0, nXSize = 99, nYSize = 99, nDataOffset = 0,
            nBufXSize = 303, nBufYSize = 303\<rparr>"
  by (simp add: prepare_for_reading_def dataset_of_simps plain_level north_up_inverse)
     (simp add: view_corners_def view_def GDALApplyGeoTransform_def north_up_def clip_window_def
        c_round_def c_trunc_def)

text \<open>
  Claim C5 says that in colour table mode the three chars of a pixel are the entries
  of the Red, Green and Blue columns at the pixel's index. On a table of two rows with
  the columns Red = 10, 11, Green = 20, 21 and Blue = 30, 31, and the buffer of indices
  0, 1, the green chars are the entries of the Blue column and the blue chars are what
  the fresh allocation held.
\<close>

theorem colortable_pixels_failing_input:
  "colortable_pixels env (Some thematic_band) [0, 1]
     = Inr [10, 30, char_of_int (fresh_memory env 0), 11, 31, char_of_int (fresh_memory env 1)]"
  by (simp add: colortable_pixels_def thematic_band_rat)
     (simp add: rgba_table_def CPLMalloc_ints_def GDALRATValuesIOAsInteger_def upt_2
        lookup_pixel_def colour_at_def c_trunc_def char_of_int_def)

text \<open>Without a column of usage Red, Green or Blue the colour table branch returns no
  pixels.\<close>

lemma read_colours_missing:
  assumes "read_colours fresh cs incount (pRed, pGreen, pBlue) = Inr (r, g, b)"
  shows "(pRed = None \<and> (\<forall>c \<in> set cs. usage c \<noteq> GFU_Red) \<longrightarrow> r = None) \<and>
         (pGreen = None \<and> (\<forall>c \<in> set cs. usage c \<noteq> GFU_Green) \<longrightarrow> g = None) \<and>
         (pBlue = None \<and> (\<forall>c \<in> set cs. usage c \<noteq> GFU_Blue) \<longrightarrow> b = None)"
  using assms
proof (induction cs arbitrary: pRed pGreen pBlue)
  case Nil
  then show ?case by simp
next
  case (Cons c cs)
  show ?case
  proof (cases "usage c")
    case GFU_Red
    with Cons.prems Cons.IH show ?thesis by simp
  next
    case GFU_Green
    with Cons.prems Cons.IH show ?thesis by simp
  next
    case GFU_Blue
    with Cons.prems Cons.IH show ?thesis by (simp split: if_splits)
  qed (use Cons.prems Cons.IH in simp_all)
qed

lemma colortable_pixels_missing_column:
  assumes "u \<in> {GFU_Red, GFU_Green, GFU_Blue}"
    and "\<forall>rath. GDALGetDefaultRAT bandh = Some rath \<longrightarrow> (\<forall>c \<in> set (columns rath). usage c \<noteq> u)"
  shows "\<exists>e. colortable_pixels env bandh pBuffer = Inl e"
proof (cases "GDALGetDefaultRAT bandh")
  case None
  then show ?thesis by (simp add: colortable_pixels_def)
next
  case (Some rath)
  then have none: "\<forall>c \<in> set (columns rath). usage c \<noteq> u"
    using assms(2) by simp
  show ?thesis
  proof (cases "read_colours (fresh_memory env) (columns rath) (row_count rath) (None, None, None)")
    case (Inl e)
    then show ?thesis using Some by (simp add: colortable_pixels_def)
  next
    case (Inr state)
    obtain r g b where state: "state = (r, g, b)" by (cases state)
    have "r = None \<or> g = None \<or> b = None"
      using read_colours_missing [OF Inr [unfolded state]] none assms(1) by auto
    then show ?thesis
      using Some Inr state by (auto simp: colortable_pixels_def split: option.splits)
  qed
qed

text \<open>
  Claim C10. An image that \<^verbatim>\<open>gdal_read_multiband\<close> or \<^verbatim>\<open>gdal_read_singleband\<close> returns
  has a width of 30 times the width of the canvas and a height of 30 times its height,
  whatever the dataset and the overview.
\<close>

theorem image_size_from_canvas:
  "(gdal_read_multiband env ds overviewIndex st ext = Inr im \<longrightarrow>
      w im = PIX_PER_CELL * ww env \<and> h im = PIX_PER_CELL * wh env) \<and>
   (gdal_read_singleband env ds overviewIndex st ext = Inr im' \<longrightarrow>
      w im' = PIX_PER_CELL * ww env \<and> h im' = PIX_PER_CELL * wh env)"
proof -
  have multi: "w im = image_width env \<and> h im = image_height env"
    if "gdal_read_multiband env ds overviewIndex st ext = Inr im"
    using that unfolding gdal_read_multiband_def Let_def
    by (auto simp del: read_bands.simps split: sum.splits prod.splits if_splits)
  have single: "w im' = image_width env \<and> h im' = image_height env"
    if "gdal_read_singleband env ds overviewIndex st ext = Inr im'"
    using that unfolding gdal_read_singleband_def Let_def
    by (auto split: sum.splits if_splits)
  show ?thesis
    using multi single by (simp add: image_width_def image_height_def)
qed

lemma canvas_simps:
  "ww (canvas cw ch) = cw" "wh (canvas cw ch) = ch" "beyond_histogram (canvas cw ch) = 0"
  "caca_create_dither (canvas cw ch) x y = True"
  "image_width (canvas cw ch) = 30 * cw" "image_height (canvas cw ch) = 30 * ch"
  by (simp_all add: canvas_def image_width_def image_height_def)

lemma plain_band_handle:
  "GDALGetRasterBand (dataset_of [plain_band, plain_band, plain_band]) 1 = Some plain_band"
  "GDALGetRasterBand (dataset_of [plain_band, plain_band, plain_band]) 2 = Some plain_band"
  "GDALGetRasterBand (dataset_of [plain_band, plain_band, plain_band]) 3 = Some plain_band"
  "level_handle (Some plain_band) 0 = Some (full plain_band)"
  by (simp_all add: GDALGetRasterBand_def GDALGetRasterCount_def dataset_of_simps level_handle_def)

lemma prepare_image_example:
  "prepare_image (canvas 1 1) (dataset_of bs) (Some (full plain_band)) (view 50 50 10)
     = Inr \<lparr>nXOff = 45, nYOff = 45, nXSize = 10, nYSize = 10, nDataOffset = 0,
            nBufXSize = 30, nBufYSize = 30\<rparr>"
  by (simp add: prepare_image_def canvas_simps prepare_for_reading_def dataset_of_simps plain_level
      north_up_inverse)
     (simp add: view_corners_def view_def GDALApplyGeoTransform_def north_up_def clip_window_def
        c_round_def c_trunc_def)

lemma do_stretch_none:
  "stretchmode st = VIEWER_STRETCHMODE_NONE \<Longrightarrow> do_stretch b pBuffer (Some plain_band) st = Inr pBuffer"
  by (simp add: do_stretch_def metadata_of_def plain_band_def)

lemma rule_simps:
  "stretchmode rule_rgb = VIEWER_STRETCHMODE_NONE" "mode rule_rgb = VIEWER_MODE_RGB"
  "band_at rule_rgb 0 = 1" "band_at rule_rgb (Suc 0) = 2" "band_at rule_rgb 2 = 3"
  "stretchmode rule_greyscale = VIEWER_STRETCHMODE_NONE" "mode rule_greyscale = VIEWER_MODE_GREYSCALE"
  "band_at rule_greyscale 0 = 1"
  by (simp_all add: rule_rgb_def rule_greyscale_def band_at_def)

lemma multiband_example:
  "\<exists>px. gdal_read_multiband (canvas 1 1) (dataset_of [plain_band, plain_band, plain_band]) 0
          rule_rgb (view 50 50 10) = Inr \<lparr>pixels = px, w = 30, h = 30\<rparr>"
  by (simp add: gdal_read_multiband_def rule_simps plain_band_handle prepare_image_example
      do_stretch_none canvas_simps)

lemma singleband_example:
  "\<exists>px. gdal_read_singleband (canvas 1 1) (dataset_of [plain_band, plain_band, plain_band]) 0
          rule_greyscale (view 50 50 10) = Inr \<lparr>pixels = px, w = 30, h = 30\<rparr>"
  by (simp add: gdal_read_singleband_def rule_simps plain_band_handle prepare_image_example
      do_stretch_none canvas_simps)

theorem image_size_from_canvas_witness:
  "gdal_read_multiband (canvas 1 1) (dataset_of [plain_band, plain_band, plain_band]) 0
     rule_rgb (view 50 50 10)
     = Inr (projr (gdal_read_multiband (canvas 1 1) (dataset_of [plain_band, plain_band, plain_band]) 0
              rule_rgb (view 50 50 10))) \<and>
   w (projr (gdal_read_multiband (canvas 1 1) (dataset_of [plain_band, plain_band, plain_band]) 0
              rule_rgb (view 50 50 10))) = 30 \<and>
   h (projr (gdal_read_multiband (canvas 1 1) (dataset_of [plain_band, plain_band, plain_band]) 0
              rule_rgb (view 50 50 10))) = 30 \<and>
   gdal_read_singleband (canvas 1 1) (dataset_of [plain_band, plain_band, plain_band]) 0
     rule_greyscale (view 50 50 10)
     = Inr (projr (gdal_read_singleband (canvas 1 1) (dataset_of [plain_band, plain_band, plain_band]) 0
              rule_greyscale (view 50 50 10))) \<and>
   w (projr (gdal_read_singleband (canvas 1 1) (dataset_of [plain_band, plain_band, plain_band]) 0
              rule_greyscale (view 50 50 10))) = 30 \<and>
   h (projr (gdal_read_singleband (canvas 1 1) (dataset_of [plain_band, plain_band, plain_band]) 0
              rule_greyscale (view 50 50 10))) = 30"
proof -
  obtain px where m: "gdal_read_multiband (canvas 1 1) (dataset_of [plain_band, plain_band, plain_band]) 0
          rule_rgb (view 50 50 10) = Inr \<lparr>pixels = px, w = 30, h = 30\<rparr>"
    using multiband_example by blast
  obtain px' where s: "gdal_read_singleband (canvas 1 1) (dataset_of [plain_band, plain_band, plain_band]) 0
          rule_greyscale (view 50 50 10) = Inr \<lparr>pixels = px', w = 30, h = 30\<rparr>"
    using singleband_example by blast
  show ?thesis
    using image_size_from_canvas [of "canvas 1 1" "dataset_of [plain_band, plain_band, plain_band]" 0
        rule_rgb "view 50 50 10" "\<lparr>pixels = px, w = 30, h = 30\<rparr>"]
      image_size_from_canvas [of "canvas 1 1" "dataset_of [plain_band, plain_band, plain_band]" 0
        rule_greyscale "view 50 50 10" _ "\<lparr>pixels = px', w = 30, h = 30\<rparr>"]
    by (simp add: m s)
qed

end
